theory Spec2Isabelle
  imports Main
begin

text \<open>
  The question generation of the mock-interview application, as a functional model:
  \<^item> \<open>src/scripts/index.ts\<close>, lines 1 to 136 (the file goes on with an earlier
    version of the same module, which is not used here): the model catalog
    (\<open>resolveConfiguredModels\<close>, \<open>preferredModels\<close>, \<open>listAvailableModels\<close>,
    \<open>getCandidateModels\<close>) and \<open>chatSession.sendMessage\<close>;
  \<^item> the form component \<open>FormMockInterview\<close>: \<open>extractFirstJsonArray\<close>,
    \<open>withTimeout\<close>, \<open>cleanAiResponse\<close>, \<open>isValidQuestions\<close>,
    \<open>buildFallbackQuestions\<close>, \<open>generateAiResponse\<close>, and the part of \<open>onSubmit\<close>
    that produces the questions (lines 248 to 278).
  An asynchronous function is a function from the state of the process to a promise and
  the state after it; a \<open>throw\<close> is the promise \<open>Rejected\<close>.
\<close>

section \<open>Strings\<close>

text \<open>
  A JavaScript string is a sequence of code units. The development works with the code
  units 0 to 255 (the type \<^typ>\<open>char\<close>); every literal of the program is ASCII.
  On this range \<open>String.prototype.trim\<close> removes the code units 9 to 13, 32 and 160,
  and \<open>toLowerCase\<close> moves A to Z and the upper-case letters 192 to 222 (215 apart,
  the multiplication sign) by 32.
\<close>

definition isWhiteSpace :: "char \<Rightarrow> bool" where
  "isWhiteSpace c = (of_char c \<in> {9, 10, 11, 12, 13, 32, 160 :: int})"

definition trim :: "string \<Rightarrow> string" where
  "trim s = rev (dropWhile isWhiteSpace (rev (dropWhile isWhiteSpace s)))"

definition lowerChar :: "char \<Rightarrow> char" where
  "lowerChar c =
     (let n = (of_char c :: int)
      in if (65 \<le> n \<and> n \<le> 90) \<or> (192 \<le> n \<and> n \<le> 222 \<and> n \<noteq> 215)
         then char_of (n + 32) else c)"

definition toLowerCase :: "string \<Rightarrow> string" where
  "toLowerCase s = map lowerChar s"

definition startsWith :: "string \<Rightarrow> string \<Rightarrow> bool" where
  "startsWith s p = (take (length p) s = p)"

text \<open>\<open>s.includes(p)\<close>: \<open>p\<close> occurs in \<open>s\<close> at some position.\<close>

fun includes_str :: "string \<Rightarrow> string \<Rightarrow> bool" where
  "includes_str [] p = (p = [])"
| "includes_str (c # cs) p = (startsWith (c # cs) p \<or> includes_str cs p)"

text \<open>\<open>xs.join(sep)\<close>.\<close>

fun join :: "string \<Rightarrow> string list \<Rightarrow> string" where
  "join sep [] = []"
| "join sep [x] = x"
| "join sep (x # y # ys) = x @ sep @ join sep (y # ys)"

text \<open>
  \<open>s.replace(p, "")\<close> with a string pattern: the first occurrence of \<open>p\<close> is
  removed, wherever it is.
\<close>

fun removeFirst :: "string \<Rightarrow> string \<Rightarrow> string" where
  "removeFirst p [] = []"
| "removeFirst p (c # cs) =
     (if startsWith (c # cs) p then drop (length p) (c # cs) else c # removeFirst p cs)"

text \<open>
  \<open>s.replace(/p/g, "")\<close> for a literal pattern \<open>p\<close>: every occurrence is removed,
  scanning from the left, and the scan goes on behind each match.
\<close>

function removeAll :: "string \<Rightarrow> string \<Rightarrow> string" where
  "removeAll p [] = []"
| "removeAll p (c # cs) =
     (if p \<noteq> [] \<and> startsWith (c # cs) p then removeAll p (drop (length p) (c # cs))
      else c # removeAll p cs)"
  by pat_completeness auto
termination
  by (relation "measure (\<lambda>(p, s). length s)") auto

text \<open>A value is falsy as a string when it is \<open>undefined\<close> or empty.\<close>

definition truthy :: "string option \<Rightarrow> bool" where
  "truthy v = (case v of None \<Rightarrow> False | Some s \<Rightarrow> s \<noteq> [])"

section \<open>Thrown values and promises\<close>

text \<open>
  Whatever the program throws is either an \<open>Error\<close> object, of which the code reads
  the message only, or some other value. An asynchronous call is fulfilled, rejected,
  or still pending when the caller stops waiting for it.
\<close>

datatype thrown = JsError string | NotAnError

datatype 'a promise = Fulfilled 'a | Rejected thrown | Pending

text \<open>\<open>e instanceof Error ? e.message : dflt\<close>\<close>

definition messageOr :: "string \<Rightarrow> thrown \<Rightarrow> string" where
  "messageOr dflt e = (case e of JsError m \<Rightarrow> m | NotAnError \<Rightarrow> dflt)"

section \<open>JSON values\<close>

text \<open>
  The result of \<open>JSON.parse\<close>. The type of numbers is a parameter: the program never
  looks into one. An object is the list of its own properties, read by name.
\<close>

datatype 'n json =
    JNull
  | JBool bool
  | JNumber 'n
  | JString string
  | JArray "'n json list"
  | JObject "(string \<times> 'n json) list"

fun typeof :: "'n json \<Rightarrow> string" where
  "typeof JNull = ''object''"
| "typeof (JBool b) = ''boolean''"
| "typeof (JNumber n) = ''number''"
| "typeof (JString s) = ''string''"
| "typeof (JArray xs) = ''object''"
| "typeof (JObject ps) = ''object''"

text \<open>
  \<open>item.name\<close> for one of the names \<open>question\<close> and \<open>answer\<close>; \<open>None\<close> is
  \<open>undefined\<close>. Only an object can own such a property.
\<close>

fun getProp :: "'n json \<Rightarrow> string \<Rightarrow> 'n json option" where
  "getProp (JObject ps) name = map_of ps name"
| "getProp v name = None"

section \<open>The form data\<close>

record 'n FormData =
  position :: string
  description :: string
  experience :: 'n
  techStack :: string

section \<open>Model catalog (scripts/index.ts)\<close>

definition resolveConfiguredModels :: "string option \<Rightarrow> string list" where
  "resolveConfiguredModels model =
     (if \<not> truthy model then []
      else let normalized = toLowerCase (trim (the model))
           in if normalized = ''gemini pro3'' \<or> normalized = ''gemini-pro3''
                 \<or> normalized = ''pro3''
              then [''gemini-2.5-pro'', ''gemini-2.5-pro-latest'', ''gemini-1.5-pro-latest'']
              else [trim (the model)])"

definition curatedModels :: "string list" where
  "curatedModels =
     [''gemini-1.5-flash-latest'', ''gemini-1.5-pro-latest'', ''gemini-2.5-pro'',
      ''gemini-2.5-pro-latest'', ''gemini-2.5-flash'', ''gemini-2.0-flash'',
      ''gemini-2.0-flash-exp'', ''gemini-2.0-flash-lite'', ''gemini-1.5-flash'']"

text \<open>
  \<open>preferredModels\<close>: the configured identifiers, then the curated ones, without the
  empty strings (\<open>filter(Boolean)\<close>).
\<close>

definition preferredModels :: "string option \<Rightarrow> string list" where
  "preferredModels configuredModel =
     filter (\<lambda>m. m \<noteq> []) (resolveConfiguredModels configuredModel @ curatedModels)"

text \<open>\<open>modelId.replace(/^models\//, "")\<close>\<close>

definition normalizeModelId :: "string \<Rightarrow> string" where
  "normalizeModelId modelId =
     (if startsWith modelId ''models/'' then drop 7 modelId else modelId)"

text \<open>
  \<open>[...new Set(xs)]\<close>: the elements are inserted from the left, an element that the
  set already holds is skipped, and the set is read in insertion order.
\<close>

fun setInsertAll :: "'a list \<Rightarrow> 'a list \<Rightarrow> 'a list" where
  "setInsertAll seen [] = seen"
| "setInsertAll seen (x # xs) =
     setInsertAll (if x \<in> set seen then seen else seen @ [x]) xs"

definition uniq :: "'a list \<Rightarrow> 'a list" where
  "uniq xs = setInsertAll [] xs"

section \<open>The environment and the state of the process\<close>

text \<open>
  Everything outside the program is a parameter: the two environment variables, the
  provider's discovery endpoint, its generation endpoint, \<open>JSON.parse\<close>, and the text
  of the prompt (the template literal of \<open>generateAiResponse\<close> filled with the form
  data; the program only passes it on). An endpoint answers as the history of the process
  so far, the log, lets it: two calls with the same arguments may end differently. An
  answer \<open>Pending\<close> is one that does not arrive before the caller's timer fires.

  The log is the record of what the process did that is visible outside: the timers it
  set, the requests it sent, the warnings it showed. The program never reads it.
\<close>

datatype event =
    TimerSet int
  | FetchModels
  | SendMessage string string
  | ToastWarning string

record modelDescriptor =
  name :: "string option"
  supportedGenerationMethods :: "string list option"

record listModelsResponse =
  ok :: bool
  models :: "modelDescriptor list option"

text \<open>What \<open>aiResult.response.text()\<close> does: it returns the text or throws.\<close>

type_synonym response = "thrown + string"

text \<open>
  \<open>fetch\<close> is the request to the discovery endpoint, with the reading of its body.
  \<open>remote history modelId prompt\<close> is the body of the \<open>try\<close> in the loop of
  \<open>sendMessage\<close>: the chat session for \<open>modelId\<close> is created and \<open>prompt\<close> is sent;
  \<open>Rejected\<close> is whatever is thrown there. The events \<open>TimerSet ms\<close>,
  \<open>FetchModels\<close>, \<open>SendMessage modelId prompt\<close> and \<open>ToastWarning description\<close>
  are the entries of the log.
\<close>

record 'n world =
  apiKey :: "string option"
  configuredModel :: "string option"
  fetch :: "event list \<Rightarrow> listModelsResponse promise"
  remote :: "event list \<Rightarrow> string \<Rightarrow> string \<Rightarrow> response promise"
  jsonParse :: "string \<Rightarrow> string + 'n json"
  promptText :: "'n FormData \<Rightarrow> string"

record state =
  cachedModelList :: "string list option"
  log :: "event list"

definition record_event :: "event \<Rightarrow> state \<Rightarrow> state" where
  "record_event e st = st\<lparr>log := log st @ [e]\<rparr>"

text \<open>
  The names that \<open>listAvailableModels\<close> keeps from \<open>data.models\<close>: the descriptors
  that support \<open>generateContent\<close>, each name without its first \<open>models/\<close>, the missing
  and the empty names dropped.
\<close>

definition supportsGenerateContent :: "modelDescriptor \<Rightarrow> bool" where
  "supportsGenerateContent m =
     (case supportedGenerationMethods m of
        None \<Rightarrow> False
      | Some methods \<Rightarrow> ''generateContent'' \<in> set methods)"

definition availableNames :: "modelDescriptor list option \<Rightarrow> string list" where
  "availableNames ms =
     map the (filter truthy
       (map (\<lambda>m. map_option (removeFirst ''models/'') (name m))
          (filter supportsGenerateContent (case ms of None \<Rightarrow> [] | Some xs \<Rightarrow> xs))))"

text \<open>
  The request and the reading of its body are one exchange here: a rejection is a
  network error or an unreadable body, both caught and turned into the empty list.
\<close>

definition listAvailableModels :: "'n world \<Rightarrow> state \<Rightarrow> string list promise \<times> state" where
  "listAvailableModels w st =
     (if \<not> truthy (apiKey w) then (Fulfilled [], st)
      else let st' = record_event FetchModels st
           in case fetch w (log st) of
                Pending \<Rightarrow> (Pending, st')
              | Rejected e \<Rightarrow> (Fulfilled [], st')
              | Fulfilled response \<Rightarrow>
                  if \<not> ok response then (Fulfilled [], st')
                  else (Fulfilled (availableNames (models response)), st'))"

definition getCandidateModels :: "'n world \<Rightarrow> state \<Rightarrow> string list promise \<times> state" where
  "getCandidateModels w st =
     (case cachedModelList st of
        Some cached \<Rightarrow> (Fulfilled cached, st)
      | None \<Rightarrow>
          (case listAvailableModels w st of
             (Fulfilled available, st') \<Rightarrow>
               let orderedCandidates =
                     (if length available > 0
                      then preferredModels (configuredModel w) @ available
                      else preferredModels (configuredModel w));
                   resolved = uniq (map normalizeModelId orderedCandidates)
               in (Fulfilled resolved, st'\<lparr>cachedModelList := Some resolved\<rparr>)
           | (Rejected e, st') \<Rightarrow> (Rejected e, st')
           | (Pending, st') \<Rightarrow> (Pending, st')))"

section \<open>Resilient invocation (scripts/index.ts)\<close>

text \<open>The message of the error thrown behind the loop of \<open>sendMessage\<close>.\<close>

definition failedMessage :: "string list \<Rightarrow> thrown option \<Rightarrow> string" where
  "failedMessage candidates lastError =
     ''Gemini failed for models: '' @ join '', '' candidates @ ''. '' @
     (case lastError of
        None \<Rightarrow> ''Unknown error''
      | Some e \<Rightarrow> messageOr ''Unknown error'' e)"

text \<open>
  The loop of \<open>sendMessage\<close> over the candidates still to try; \<open>candidates\<close> is the
  whole list, \<open>lastError\<close> starts as \<open>null\<close> (\<open>None\<close>).
\<close>

fun tryCandidates ::
  "'n world \<Rightarrow> string \<Rightarrow> string list \<Rightarrow> string list \<Rightarrow> thrown option \<Rightarrow> state
     \<Rightarrow> response promise \<times> state" where
  "tryCandidates w prompt candidates [] lastError st =
     (Rejected (JsError (failedMessage candidates lastError)), st)"
| "tryCandidates w prompt candidates (candidate # rest) lastError st =
     (let modelId = normalizeModelId candidate;
          st' = record_event (SendMessage modelId prompt) st
      in case remote w (log st) modelId prompt of
           Fulfilled r \<Rightarrow> (Fulfilled r, st')
         | Rejected error \<Rightarrow> tryCandidates w prompt candidates rest (Some error) st'
         | Pending \<Rightarrow> (Pending, st'))"

definition sendMessage :: "'n world \<Rightarrow> string \<Rightarrow> state \<Rightarrow> response promise \<times> state" where
  "sendMessage w prompt st =
     (if \<not> truthy (apiKey w) then (Rejected (JsError ''Missing VITE_GEMINI_API_KEY''), st)
      else case getCandidateModels w st of
             (Fulfilled candidates, st') \<Rightarrow> tryCandidates w prompt candidates candidates None st'
           | (Rejected e, st') \<Rightarrow> (Rejected e, st')
           | (Pending, st') \<Rightarrow> (Pending, st'))"

section \<open>Response sanitizer (form-mock-interview)\<close>

text \<open>\<open>text.slice(a, b)\<close> for \<open>0 \<le> a \<le> b\<close>.\<close>

definition slice :: "string \<Rightarrow> nat \<Rightarrow> nat \<Rightarrow> string" where
  "slice text a b = take (b - a) (drop a text)"

text \<open>
  The loop of \<open>extractFirstJsonArray\<close>: the characters from index \<open>i\<close> on are still to
  read. The double quote is the code unit 34 and the backslash 92.
\<close>

fun scanArray ::
  "string \<Rightarrow> string \<Rightarrow> nat \<Rightarrow> int \<Rightarrow> nat \<Rightarrow> bool \<Rightarrow> bool \<Rightarrow> string option" where
  "scanArray text [] i start depth inString isEscaped = None"
| "scanArray text (char # rest) i start depth inString isEscaped =
     (if inString then
        (if isEscaped then scanArray text rest (i + 1) start depth inString False
         else if char = CHR 0x5C then scanArray text rest (i + 1) start depth inString True
         else if char = CHR 0x22 then scanArray text rest (i + 1) start depth False isEscaped
         else scanArray text rest (i + 1) start depth inString isEscaped)
      else if char = CHR 0x22 then scanArray text rest (i + 1) start depth True isEscaped
      else if char = CHR ''['' then
        scanArray text rest (i + 1) (if depth = 0 then int i else start) (depth + 1)
          inString isEscaped
      else if char = CHR '']'' \<and> depth > 0 then
        (if depth - 1 = 0 \<and> start \<ge> 0 then Some (slice text (nat start) (i + 1))
         else scanArray text rest (i + 1) start (depth - 1) inString isEscaped)
      else scanArray text rest (i + 1) start depth inString isEscaped)"

definition extractFirstJsonArray :: "string \<Rightarrow> string option" where
  "extractFirstJsonArray text = scanArray text text 0 (- 1) 0 False False"

text \<open>
  \<open>s.replace(/```(?:json)?/gi, "")\<close>: three backticks, and the word \<open>json\<close> in any
  case when it follows them, are removed wherever they stand.
\<close>

function removeFences :: "string \<Rightarrow> string" where
  "removeFences [] = []"
| "removeFences (c # cs) =
     (if startsWith (c # cs) ''```'' then
        (let rest = drop 3 (c # cs)
         in if toLowerCase (take 4 rest) = ''json'' then removeFences (drop 4 rest)
            else removeFences rest)
      else c # removeFences cs)"
  by pat_completeness auto
termination
  by (relation "measure length") auto

text \<open>The text that \<open>cleanAiResponse\<close> hands to \<open>JSON.parse\<close>.\<close>

definition normalizedText :: "string \<Rightarrow> string" where
  "normalizedText responseText =
     (let cleanText = trim responseText;
          cleanText = trim (removeAll ''```'' (removeFences cleanText));
          extractedArray =
            (case extractFirstJsonArray cleanText of None \<Rightarrow> cleanText | Some a \<Rightarrow> a)
      in map (\<lambda>char. if (of_char char :: int) < 32 then CHR '' '' else char) extractedArray)"

definition cleanAiResponse :: "'n world \<Rightarrow> string \<Rightarrow> thrown + 'n json" where
  "cleanAiResponse w responseText =
     (case jsonParse w (normalizedText responseText) of
        Inl msg \<Rightarrow> Inl (JsError (''Invalid JSON format: '' @ msg))
      | Inr v \<Rightarrow> Inr v)"

definition nonBlankString :: "'n json option \<Rightarrow> bool" where
  "nonBlankString v =
     (case v of Some (JString s) \<Rightarrow> length (trim s) > 0 | _ \<Rightarrow> False)"

definition validItem :: "'n json \<Rightarrow> bool" where
  "validItem item =
     (if typeof item \<noteq> ''object'' \<or> item = JNull then False
      else let question = getProp item ''question'';
               answer = getProp item ''answer''
           in nonBlankString question \<and> nonBlankString answer)"

definition isValidQuestions :: "'n json \<Rightarrow> bool" where
  "isValidQuestions data =
     (case data of JArray items \<Rightarrow> list_all validItem items | _ \<Rightarrow> False)"

section \<open>Generation orchestrator (form-mock-interview)\<close>

definition questionItem :: "string \<Rightarrow> string \<Rightarrow> 'n json" where
  "questionItem q a = JObject [(''question'', JString q), (''answer'', JString a)]"

definition buildFallbackQuestions :: "'n FormData \<Rightarrow> 'n json" where
  "buildFallbackQuestions data =
     JArray
       [questionItem
          (''Introduce your approach to building a '' @ position data @
           '' project using '' @ techStack data @ ''.'')
          ''Define requirements, design architecture, break work into milestones, implement iteratively, and validate with tests and monitoring.'',
        questionItem
          (''How would you structure a scalable codebase for '' @ position data @ ''?'')
          ''Use modular boundaries, separate concerns, enforce code standards, add shared utilities, and document conventions for long-term maintainability.'',
        questionItem
          (''How do you handle debugging and performance issues in '' @ techStack data @ ''?'')
          ''Reproduce reliably, collect logs/metrics, profile bottlenecks, fix root causes, and verify improvements with measurable benchmarks.'',
        questionItem
          ''What testing strategy would you follow for this role?''
          ''Combine unit, integration, and end-to-end tests with CI checks to prevent regressions and ensure release confidence.'',
        questionItem
          ''How do you collaborate with product/design teams on ambiguous requirements?''
          ''Clarify assumptions early, align on acceptance criteria, communicate tradeoffs, and iterate with frequent feedback loops.'']"

definition generateAiResponse ::
  "'n world \<Rightarrow> 'n FormData \<Rightarrow> state \<Rightarrow> 'n json promise \<times> state" where
  "generateAiResponse w data st =
     (case sendMessage w (promptText w data) st of
        (Fulfilled aiResult, st') \<Rightarrow>
          (case aiResult of
             Inl e \<Rightarrow> (Rejected e, st')
           | Inr text \<Rightarrow>
               (case cleanAiResponse w text of
                  Inl e \<Rightarrow> (Rejected e, st')
                | Inr cleanedResponse \<Rightarrow>
                    if \<not> isValidQuestions cleanedResponse
                    then (Rejected (JsError ''AI returned unexpected question format''), st')
                    else (Fulfilled cleanedResponse, st')))
      | (Rejected e, st') \<Rightarrow> (Rejected e, st')
      | (Pending, st') \<Rightarrow> (Pending, st'))"

text \<open>
  \<open>withTimeout(promise, ms, message)\<close>: the call races a timer of \<open>ms\<close> milliseconds.
  When the timer fires first, the call is left pending, its outcome is dropped, and the
  race rejects with an error that carries \<open>message\<close>. What the abandoned call still
  does later is not followed. The log shows the timer in front of the requests of the
  call that it bounds.
\<close>

definition withTimeout ::
  "(state \<Rightarrow> 'a promise \<times> state) \<Rightarrow> int \<Rightarrow> string \<Rightarrow> state \<Rightarrow> 'a promise \<times> state" where
  "withTimeout promise ms message st =
     (case promise (record_event (TimerSet ms) st) of
        (Pending, st') \<Rightarrow> (Rejected (JsError message), st')
      | (Fulfilled v, st') \<Rightarrow> (Fulfilled v, st')
      | (Rejected e, st') \<Rightarrow> (Rejected e, st'))"

definition AI_TIMEOUT_MS :: int where
  "AI_TIMEOUT_MS = 60000"

definition AI_RETRY_TIMEOUT_MS :: int where
  "AI_RETRY_TIMEOUT_MS = 90000"

text \<open>The two catch branches of \<open>onSubmit\<close> that end in the fallback questions.\<close>

definition fallbackWarning :: "string \<Rightarrow> string" where
  "fallbackWarning reason = ''Using fallback interview questions for now. ('' @ reason @ '')''"

definition useFallback :: "'n FormData \<Rightarrow> string \<Rightarrow> state \<Rightarrow> 'n json promise \<times> state" where
  "useFallback data reason st =
     (Fulfilled (buildFallbackQuestions data),
      record_event (ToastWarning (fallbackWarning reason)) st)"

definition isTimeoutReason :: "string \<Rightarrow> bool" where
  "isTimeoutReason reason = includes_str (toLowerCase reason) ''timed out''"

text \<open>
  The part of \<open>onSubmit\<close> that produces \<open>questions\<close>: the inner \<open>try\<close> around the
  first call of \<open>withTimeout\<close>, and its \<open>catch\<close> with the second call. A result
  \<open>Rejected\<close> of \<open>generateQuestions\<close> would be an error that leaves the inner
  \<open>try\<close> for the outer handler of \<open>onSubmit\<close>.
\<close>

definition primaryAttempt ::
  "'n world \<Rightarrow> 'n FormData \<Rightarrow> state \<Rightarrow> 'n json promise \<times> state" where
  "primaryAttempt w data st =
     withTimeout (generateAiResponse w data) AI_TIMEOUT_MS ''AI generation timed out'' st"

definition retryAttempt ::
  "'n world \<Rightarrow> 'n FormData \<Rightarrow> state \<Rightarrow> 'n json promise \<times> state" where
  "retryAttempt w data st =
     withTimeout (generateAiResponse w data) AI_RETRY_TIMEOUT_MS
       ''AI generation timed out after retry'' st"

definition generateQuestions ::
  "'n world \<Rightarrow> 'n FormData \<Rightarrow> state \<Rightarrow> 'n json promise \<times> state" where
  "generateQuestions w data st =
     (case primaryAttempt w data st of
        (Fulfilled questions, st1) \<Rightarrow> (Fulfilled questions, st1)
      | (Pending, st1) \<Rightarrow> (Pending, st1)
      | (Rejected error, st1) \<Rightarrow>
          (let reason = messageOr ''Unknown AI error'' error;
               isTimeout = isTimeoutReason reason
           in if isTimeout then
                (case retryAttempt w data st1 of
                   (Fulfilled questions, st2) \<Rightarrow> (Fulfilled questions, st2)
                 | (Pending, st2) \<Rightarrow> (Pending, st2)
                 | (Rejected retryError, st2) \<Rightarrow>
                     useFallback data (messageOr ''Unknown AI error'' retryError) st2)
              else useFallback data reason st1))"

text \<open>The projections of the log.\<close>

fun timers :: "event list \<Rightarrow> int list" where
  "timers [] = []"
| "timers (TimerSet ms # es) = ms # timers es"
| "timers (e # es) = timers es"

fun warnings :: "event list \<Rightarrow> string list" where
  "warnings [] = []"
| "warnings (ToastWarning d # es) = d # warnings es"
| "warnings (e # es) = warnings es"

fun fetches :: "event list \<Rightarrow> nat" where
  "fetches [] = 0"
| "fetches (FetchModels # es) = Suc (fetches es)"
| "fetches (e # es) = fetches es"

text \<open>
  The position of the first occurrence of \<open>a\<close> in \<open>xs\<close> (the length of \<open>xs\<close> when
  there is none).
\<close>

definition firstIndex :: "'a list \<Rightarrow> 'a \<Rightarrow> nat" where
  "firstIndex xs a = length (takeWhile (\<lambda>y. y \<noteq> a) xs)"

text \<open>The log entries of one generation request per candidate of \<open>cs\<close>, in order.\<close>

definition attemptsLog :: "string \<Rightarrow> string list \<Rightarrow> event list" where
  "attemptsLog prompt cs = map (\<lambda>c. SendMessage (normalizeModelId c) prompt) cs"

section \<open>Example environments\<close>

text \<open>
  Concrete environments, on which the theorems below are applied. The parser is
  \<open>JSON.parse\<close> on the few texts that occur; numbers are integers.
\<close>

definition freshState :: state where
  "freshState = \<lparr>cachedModelList = None, log = []\<rparr>"

definition emptyCacheState :: state where
  "emptyCacheState = \<lparr>cachedModelList = Some [], log = []\<rparr>"

definition exampleData :: "int FormData" where
  "exampleData =
     \<lparr>position = ''Full Stack Developer'', description = ''React, Node, Express, MongoDB'',
      experience = 2, techStack = ''React''\<rparr>"

definition blankData :: "int FormData" where
  "blankData = \<lparr>position = [], description = [], experience = 0, techStack = []\<rparr>"

definition exampleParse :: "string \<Rightarrow> string + int json" where
  \<open>exampleParse s =
     (if s = ''[{"question":"Q1","answer":"A1"}]''
      then Inr (JArray [JObject [(''question'', JString ''Q1''), (''answer'', JString ''A1'')]])
      else if s = ''[{"question":"","answer":"A1"}]''
      then Inr (JArray [JObject [(''question'', JString []), (''answer'', JString ''A1'')]])
      else if s = ''[{"question":"What is ```json?","answer":"A fence"}]''
      then Inr (JArray [JObject [(''question'', JString ''What is ```json?''),
                                 (''answer'', JString ''A fence'')]])
      else if s = ''[{"question":"What is ?","answer":"A fence"}]''
      then Inr (JArray [JObject [(''question'', JString ''What is ?''),
                                 (''answer'', JString ''A fence'')]])
      else Inl ''Unexpected token'')\<close>

text \<open>
  A key is configured, discovery fails, and every generation request is rejected with an
  error that names the model.
\<close>

definition refusingWorld :: "int world" where
  "refusingWorld =
     \<lparr>apiKey = Some ''key'', configuredModel = None,
      fetch = (\<lambda>history. Rejected (JsError ''Failed to fetch'')),
      remote = (\<lambda>history modelId prompt. Rejected (JsError (''no access to '' @ modelId))),
      jsonParse = exampleParse,
      promptText = (\<lambda>data. ''Questions for '' @ position data)\<rparr>"

text \<open>No key is configured.\<close>

definition noKeyWorld :: "int world" where
  "noKeyWorld = refusingWorld\<lparr>apiKey := None\<rparr>"

text \<open>Only the third curated model answers.\<close>

definition thirdAnswersWorld :: "int world" where
  \<open>thirdAnswersWorld =
     refusingWorld\<lparr>remote := (\<lambda>history modelId prompt.
       if modelId = ''gemini-2.5-pro'' then Fulfilled (Inr ''[{"question":"Q1","answer":"A1"}]'')
       else Rejected (JsError (''no access to '' @ modelId)))\<rparr>\<close>

text \<open>
  Discovery lists three models: one of the curated list, a new one, and one that does not
  generate content. The configured model carries the namespace prefix.
\<close>

definition overlapWorld :: "int world" where
  "overlapWorld =
     refusingWorld\<lparr>configuredModel := Some ''models/gemini-2.5-flash'',
       fetch := (\<lambda>history. Fulfilled
         \<lparr>ok = True,
          models = Some
            [\<lparr>name = Some ''models/gemini-2.0-flash'',
              supportedGenerationMethods = Some [''generateContent'']\<rparr>,
             \<lparr>name = Some ''models/gemini-3-new'',
              supportedGenerationMethods = Some [''generateContent'', ''countTokens'']\<rparr>,
             \<lparr>name = Some ''models/embedding-001'',
              supportedGenerationMethods = Some [''embedContent'']\<rparr>]\<rparr>)\<rparr>"


text \<open>No request is ever answered in time.\<close>

definition silentWorld :: "int world" where
  "silentWorld = refusingWorld\<lparr>remote := (\<lambda>history modelId prompt. Pending)\<rparr>"

text \<open>The model answers with a pair whose question is empty.\<close>

definition emptyQuestionWorld :: "int world" where
  \<open>emptyQuestionWorld =
     refusingWorld\<lparr>remote := (\<lambda>history modelId prompt.
       Fulfilled (Inr ''[{"question":"","answer":"A1"}]''))\<rparr>\<close>


section \<open>Properties\<close>

subsection \<open>The fallback questions\<close>

lemma dropWhile_keeps: "x \<in> set s \<Longrightarrow> \<not> P x \<Longrightarrow> x \<in> set (dropWhile P s)"
  by (induction s) auto

lemma trim_keeps: "c \<in> set s \<Longrightarrow> \<not> isWhiteSpace c \<Longrightarrow> c \<in> set (trim s)"
  unfolding trim_def by (simp add: dropWhile_keeps)

lemma trim_nonblank: "c \<in> set s \<Longrightarrow> \<not> isWhiteSpace c \<Longrightarrow> 0 < length (trim s)"
  using trim_keeps [of c s] by (cases "trim s") auto

lemma letters_not_space:
  "\<not> isWhiteSpace CHR ''I''" "\<not> isWhiteSpace CHR ''H''" "\<not> isWhiteSpace CHR ''W''"
  "\<not> isWhiteSpace CHR ''D''" "\<not> isWhiteSpace CHR ''U''" "\<not> isWhiteSpace CHR ''R''"
  "\<not> isWhiteSpace CHR ''C''"
  by (simp_all add: isWhiteSpace_def)

lemma fallback_items:
  "\<exists>q1 q2 q3 q4 q5 a1 a2 a3 a4 a5.
     buildFallbackQuestions data =
       JArray [questionItem q1 a1, questionItem q2 a2, questionItem q3 a3,
               questionItem q4 a4, questionItem q5 a5] \<and>
     0 < length (trim q1) \<and> 0 < length (trim q2) \<and> 0 < length (trim q3) \<and>
     0 < length (trim q4) \<and> 0 < length (trim q5) \<and>
     0 < length (trim a1) \<and> 0 < length (trim a2) \<and> 0 < length (trim a3) \<and>
     0 < length (trim a4) \<and> 0 < length (trim a5)"
  unfolding buildFallbackQuestions_def
  apply (intro exI conjI)
            apply (rule refl)
           apply (rule trim_nonblank [of "CHR ''I''"], simp, rule letters_not_space)
          apply (rule trim_nonblank [of "CHR ''H''"], simp, rule letters_not_space)
         apply (rule trim_nonblank [of "CHR ''H''"], simp, rule letters_not_space)
        apply (rule trim_nonblank [of "CHR ''W''"], simp, rule letters_not_space)
       apply (rule trim_nonblank [of "CHR ''H''"], simp, rule letters_not_space)
      apply (rule trim_nonblank [of "CHR ''D''"], simp, rule letters_not_space)
     apply (rule trim_nonblank [of "CHR ''U''"], simp, rule letters_not_space)
    apply (rule trim_nonblank [of "CHR ''R''"], simp, rule letters_not_space)
   apply (rule trim_nonblank [of "CHR ''C''"], simp, rule letters_not_space)
  apply (rule trim_nonblank [of "CHR ''C''"], simp, rule letters_not_space)
  done

lemma validItem_questionItem:
  "0 < length (trim q) \<Longrightarrow> 0 < length (trim a) \<Longrightarrow> validItem (questionItem q a)"
  by (simp add: validItem_def questionItem_def nonBlankString_def)

lemma fallback_valid: "isValidQuestions (buildFallbackQuestions data)"
proof -
  obtain q1 q2 q3 q4 q5 a1 a2 a3 a4 a5 where
    "buildFallbackQuestions data =
       JArray [questionItem q1 a1, questionItem q2 a2, questionItem q3 a3,
               questionItem q4 a4, questionItem q5 a5]"
    "0 < length (trim q1)" "0 < length (trim q2)" "0 < length (trim q3)"
    "0 < length (trim q4)" "0 < length (trim q5)"
    "0 < length (trim a1)" "0 < length (trim a2)" "0 < length (trim a3)"
    "0 < length (trim a4)" "0 < length (trim a5)"
    using fallback_items [of data] by blast
  then show ?thesis
    by (simp add: isValidQuestions_def validItem_questionItem)
qed

text \<open>
  Claim C10. For every form data, also with empty \<open>position\<close>, \<open>description\<close> or
  \<open>techStack\<close>, the fallback generator returns exactly five question/answer pairs, and
  in each pair the trimmed question and the trimmed answer are not empty.
\<close>

theorem buildFallbackQuestions_five_pairs:
  "\<exists>items. buildFallbackQuestions data = JArray items \<and> length items = 5 \<and>
     (\<forall>item \<in> set items. \<exists>q a.
        item = JObject [(''question'', JString q), (''answer'', JString a)] \<and>
        0 < length (trim q) \<and> 0 < length (trim a))"
proof -
  obtain q1 q2 q3 q4 q5 a1 a2 a3 a4 a5 where
    *: "buildFallbackQuestions data =
       JArray [questionItem q1 a1, questionItem q2 a2, questionItem q3 a3,
               questionItem q4 a4, questionItem q5 a5]"
    "0 < length (trim q1)" "0 < length (trim q2)" "0 < length (trim q3)"
    "0 < length (trim q4)" "0 < length (trim q5)"
    "0 < length (trim a1)" "0 < length (trim a2)" "0 < length (trim a3)"
    "0 < length (trim a4)" "0 < length (trim a5)"
    using fallback_items [of data] by blast
  then show ?thesis
    by (simp add: questionItem_def)
qed

text \<open>
  Claim C10 on the form data with empty fields: the first of the five pairs, whose
  question is built from the two empty fields.
\<close>

theorem buildFallbackQuestions_five_pairs_witness:
  "(\<exists>rest. buildFallbackQuestions blankData =
       JArray (JObject [(''question'',
                         JString ''Introduce your approach to building a  project using .''),
                        (''answer'',
                         JString ''Define requirements, design architecture, break work into milestones, implement iteratively, and validate with tests and monitoring.'')]
               # rest) \<and> length rest = 4) \<and>
   0 < length (trim ''Introduce your approach to building a  project using .'')"
  (is "?shape \<and> ?nonblank")
proof -
  let ?first = "JObject [(''question'',
                         JString ''Introduce your approach to building a  project using .''),
                        (''answer'',
                         JString ''Define requirements, design architecture, break work into milestones, implement iteratively, and validate with tests and monitoring.'')]
      :: int json"
  have shape: ?shape
    by (simp add: buildFallbackQuestions_def blankData_def questionItem_def)
  obtain items where
    items: "buildFallbackQuestions blankData = JArray items" and
    each: "\<forall>item \<in> set items. \<exists>q a.
        item = JObject [(''question'', JString q), (''answer'', JString a)] \<and>
        0 < length (trim q) \<and> 0 < length (trim a)"
    using buildFallbackQuestions_five_pairs [of blankData] by blast
  from shape items have "?first \<in> set items" by auto
  with each obtain q a where
    "?first = JObject [(''question'', JString q), (''answer'', JString a)]"
    "0 < length (trim q)"
    by blast
  then have ?nonblank by simp
  with shape show ?thesis by blast
qed

subsection \<open>Resolution of the configured model\<close>

text \<open>
  Claim C7, as amended. A configured string that is one of the nicknames after trimming
  and lower-casing resolves to the fixed list of three identifiers; every other non-empty
  configured string resolves to the singleton list of the string with the surrounding
  white space removed.
\<close>

theorem resolveConfiguredModels_alias_or_trimmed:
  "model \<noteq> [] \<Longrightarrow>
     resolveConfiguredModels (Some model) =
       (if toLowerCase (trim model) \<in> {''gemini pro3'', ''gemini-pro3'', ''pro3''}
        then [''gemini-2.5-pro'', ''gemini-2.5-pro-latest'', ''gemini-1.5-pro-latest'']
        else [trim model])"
  by (simp add: resolveConfiguredModels_def truthy_def Let_def)

theorem resolveConfiguredModels_alias_or_trimmed_witness:
  "'' Gemini-PRO3'' \<noteq> [] \<and> '' my-model '' \<noteq> [] \<and>
   resolveConfiguredModels (Some '' Gemini-PRO3'') =
     [''gemini-2.5-pro'', ''gemini-2.5-pro-latest'', ''gemini-1.5-pro-latest''] \<and>
   resolveConfiguredModels (Some '' my-model '') = [''my-model'']"
proof -
  have a: "toLowerCase (trim '' Gemini-PRO3'') = ''gemini-pro3''" by code_simp
  have b: "toLowerCase ''my-model'' = ''my-model''" by code_simp
  have c: "trim '' my-model '' = ''my-model''" by code_simp
  show ?thesis
    using resolveConfiguredModels_alias_or_trimmed [of "'' Gemini-PRO3''"]
      resolveConfiguredModels_alias_or_trimmed [of "'' my-model ''"]
    by (simp add: a b c)
qed

text \<open>
  Claim C7 as stated fails: a configured string with surrounding white space that is no
  nickname does not resolve to exactly that string.
\<close>

theorem resolveConfiguredModels_not_verbatim:
  "'' my-model '' \<noteq> [] \<and>
   toLowerCase (trim '' my-model '') \<notin> {''gemini pro3'', ''gemini-pro3'', ''pro3''} \<and>
   resolveConfiguredModels (Some '' my-model '') \<noteq> ['' my-model '']"
  by code_simp


subsection \<open>The candidate list\<close>

lemma setInsertAll_snoc:
  "setInsertAll seen (xs @ [x]) =
     (if x \<in> set (setInsertAll seen xs) then setInsertAll seen xs
      else setInsertAll seen xs @ [x])"
  by (induction xs arbitrary: seen) auto

lemma uniq_Nil: "uniq [] = []"
  by (simp add: uniq_def)

lemma uniq_snoc:
  "uniq (xs @ [x]) = (if x \<in> set (uniq xs) then uniq xs else uniq xs @ [x])"
  by (simp add: uniq_def setInsertAll_snoc)

lemma set_uniq: "set (uniq xs) = set xs"
  by (induction xs rule: rev_induct) (auto simp: uniq_Nil uniq_snoc)

lemma distinct_uniq: "distinct (uniq xs)"
  by (induction xs rule: rev_induct) (auto simp: uniq_Nil uniq_snoc)

lemma firstIndex_append_old: "a \<in> set xs \<Longrightarrow> firstIndex (xs @ ys) a = firstIndex xs a"
  by (simp add: firstIndex_def takeWhile_append1)

lemma firstIndex_less: "a \<in> set xs \<Longrightarrow> firstIndex xs a < length xs"
  unfolding firstIndex_def by (induction xs) auto

lemma firstIndex_new: "a \<notin> set xs \<Longrightarrow> firstIndex (xs @ [a]) a = length xs"
  unfolding firstIndex_def by (induction xs) auto

lemma uniq_first_occurrence:
  "sorted_wrt (\<lambda>a b. firstIndex xs a < firstIndex xs b) (uniq xs)"
proof (induction xs rule: rev_induct)
  case Nil
  show ?case by (simp add: uniq_Nil)
next
  case (snoc x xs)
  have old: "sorted_wrt (\<lambda>a b. firstIndex (xs @ [x]) a < firstIndex (xs @ [x]) b) (uniq xs)"
    by (rule sorted_wrt_mono_rel [OF _ snoc.IH]) (simp add: set_uniq firstIndex_append_old)
  show ?case
  proof (cases "x \<in> set xs")
    case True
    then show ?thesis using old by (simp add: uniq_snoc set_uniq)
  next
    case False
    then show ?thesis
      using old
      by (auto simp: uniq_snoc set_uniq sorted_wrt_append firstIndex_new
          firstIndex_append_old firstIndex_less)
  qed
qed

lemma fetches_append: "fetches (xs @ ys) = fetches xs + fetches ys"
  by (induction xs rule: fetches.induct) auto

lemma getCandidateModels_cached:
  "cachedModelList st = Some cs \<Longrightarrow> getCandidateModels w st = (Fulfilled cs, st)"
  by (simp add: getCandidateModels_def)

lemma getCandidateModels_fresh:
  assumes "cachedModelList st = None"
    and "listAvailableModels w st = (Fulfilled available, st')"
  shows "getCandidateModels w st =
    (Fulfilled (uniq (map normalizeModelId (preferredModels (configuredModel w) @ available))),
     st'\<lparr>cachedModelList :=
       Some (uniq (map normalizeModelId (preferredModels (configuredModel w) @ available)))\<rparr>)"
  using assms by (simp add: getCandidateModels_def Let_def)

lemma listAvailableModels_fetches:
  "listAvailableModels w st = (r, st') \<Longrightarrow>
     cachedModelList st' = cachedModelList st \<and>
     (log st' = log st \<or> log st' = log st @ [FetchModels])"
  by (auto simp: listAvailableModels_def Let_def record_event_def
      split: if_splits promise.splits)

text \<open>
  Claim C9. When the first call of \<open>getCandidateModels\<close> resolves, with the static
  list \<open>preferredModels\<close> and any list \<open>available\<close> from discovery, it returns the
  normalized entries of both, static ones first, without duplicates and in the order of
  their first occurrences, after at most one discovery request. A further call, whatever
  the environment \<open>w'\<close> then is, returns the same list and leaves the state and the log
  as they are: no second discovery request is sent.
\<close>

theorem getCandidateModels_cached_and_unique:
  assumes "cachedModelList st = None"
    and "listAvailableModels w st = (Fulfilled available, st')"
  shows "\<exists>cs st1.
      cs = uniq (map normalizeModelId (preferredModels (configuredModel w) @ available)) \<and>
      getCandidateModels w st = (Fulfilled cs, st1) \<and>
      getCandidateModels w' st1 = (Fulfilled cs, st1) \<and>
      fetches (log st1) \<le> Suc (fetches (log st)) \<and>
      distinct cs \<and>
      set cs = normalizeModelId ` set (preferredModels (configuredModel w) @ available) \<and>
      sorted_wrt
        (\<lambda>a b. firstIndex (map normalizeModelId (preferredModels (configuredModel w) @ available)) a
              < firstIndex (map normalizeModelId (preferredModels (configuredModel w) @ available)) b)
        cs"
proof -
  let ?src = "map normalizeModelId (preferredModels (configuredModel w) @ available)"
  let ?st1 = "st'\<lparr>cachedModelList := Some (uniq ?src)\<rparr>"
  have first: "getCandidateModels w st = (Fulfilled (uniq ?src), ?st1)"
    by (rule getCandidateModels_fresh [OF assms])
  have again: "getCandidateModels w' ?st1 = (Fulfilled (uniq ?src), ?st1)"
    by (rule getCandidateModels_cached) simp
  have "log st' = log st \<or> log st' = log st @ [FetchModels]"
    using listAvailableModels_fetches [OF assms(2)] by simp
  then have count: "fetches (log ?st1) \<le> Suc (fetches (log st))"
    by (auto simp: fetches_append)
  show ?thesis
    using first again count distinct_uniq [of ?src] set_uniq [of ?src]
      uniq_first_occurrence [of ?src]
    by (intro exI [of _ "uniq ?src"] exI [of _ ?st1]) (simp add: image_Un)
qed


subsection \<open>The sweep over the candidates\<close>

lemma tryCandidates_first_success:
  assumes "k < length cs"
    and "\<forall>i<k. \<exists>e. remote w (log st @ attemptsLog prompt (take i cs))
              (normalizeModelId (cs ! i)) prompt = Rejected e"
    and "remote w (log st @ attemptsLog prompt (take k cs))
              (normalizeModelId (cs ! k)) prompt = Fulfilled r"
  shows "tryCandidates w prompt allc cs lastError st =
           (Fulfilled r, st\<lparr>log := log st @ attemptsLog prompt (take (Suc k) cs)\<rparr>)"
  using assms
proof (induction cs arbitrary: k st lastError)
  case Nil
  then show ?case by simp
next
  case (Cons c rest)
  show ?case
  proof (cases k)
    case 0
    with Cons.prems show ?thesis
      by (simp add: attemptsLog_def record_event_def)
  next
    case (Suc j)
    let ?st' = "record_event (SendMessage (normalizeModelId c) prompt) st"
    from Cons.prems(2) Suc obtain e where
      e: "remote w (log st) (normalizeModelId c) prompt = Rejected e"
      by (auto simp: attemptsLog_def dest: spec [of _ 0])
    have shift: "\<And>i. log ?st' @ attemptsLog prompt (take i rest) =
        log st @ attemptsLog prompt (take (Suc i) (c # rest))"
      by (simp add: attemptsLog_def record_event_def)
    have a: "j < length rest" using Cons.prems(1) Suc by simp
    have b: "\<forall>i<j. \<exists>e. remote w (log ?st' @ attemptsLog prompt (take i rest))
              (normalizeModelId (rest ! i)) prompt = Rejected e"
    proof (intro allI impI)
      fix i assume "i < j"
      then have "Suc i < k" using Suc by simp
      with Cons.prems(2) show "\<exists>e. remote w (log ?st' @ attemptsLog prompt (take i rest))
              (normalizeModelId (rest ! i)) prompt = Rejected e"
        unfolding shift by fastforce
    qed
    have c: "remote w (log ?st' @ attemptsLog prompt (take j rest))
              (normalizeModelId (rest ! j)) prompt = Fulfilled r"
      using Cons.prems(3) Suc unfolding shift by simp
    have "tryCandidates w prompt allc rest (Some e) ?st' =
        (Fulfilled r, ?st'\<lparr>log := log ?st' @ attemptsLog prompt (take (Suc j) rest)\<rparr>)"
      by (rule Cons.IH [OF a b c])
    then show ?thesis
      using e Suc by (simp add: Let_def shift) (simp add: record_event_def)
  qed
qed

lemma tryCandidates_all_rejected:
  assumes "cs \<noteq> []"
    and "\<forall>i<length cs. \<exists>e. remote w (log st @ attemptsLog prompt (take i cs))
              (normalizeModelId (cs ! i)) prompt = Rejected e"
    and "remote w (log st @ attemptsLog prompt (butlast cs))
              (normalizeModelId (last cs)) prompt = Rejected e"
  shows "tryCandidates w prompt allc cs lastError st =
           (Rejected (JsError (failedMessage allc (Some e))),
            st\<lparr>log := log st @ attemptsLog prompt cs\<rparr>)"
  using assms
proof (induction cs arbitrary: st lastError)
  case Nil
  then show ?case by simp
next
  case (Cons c rest)
  let ?st' = "record_event (SendMessage (normalizeModelId c) prompt) st"
  from Cons.prems(2) obtain e0 where
    e0: "remote w (log st) (normalizeModelId c) prompt = Rejected e0"
    by (auto simp: attemptsLog_def dest: spec [of _ 0])
  have shift: "\<And>xs. log ?st' @ attemptsLog prompt xs =
        log st @ attemptsLog prompt (c # xs)"
    by (simp add: attemptsLog_def record_event_def)
  show ?case
  proof (cases "rest = []")
    case True
    with Cons.prems(3) e0 have "e0 = e" by (simp add: attemptsLog_def)
    with True e0 show ?thesis
      by (simp add: Let_def attemptsLog_def record_event_def)
  next
    case False
    have b: "\<forall>i<length rest. \<exists>e. remote w (log ?st' @ attemptsLog prompt (take i rest))
              (normalizeModelId (rest ! i)) prompt = Rejected e"
    proof (intro allI impI)
      fix i assume "i < length rest"
      then have "Suc i < length (c # rest)" by simp
      with Cons.prems(2) show "\<exists>e. remote w (log ?st' @ attemptsLog prompt (take i rest))
              (normalizeModelId (rest ! i)) prompt = Rejected e"
        unfolding shift by fastforce
    qed
    have c: "remote w (log ?st' @ attemptsLog prompt (butlast rest))
              (normalizeModelId (last rest)) prompt = Rejected e"
      using Cons.prems(3) False unfolding shift by simp
    have "tryCandidates w prompt allc rest (Some e0) ?st' =
        (Rejected (JsError (failedMessage allc (Some e))),
         ?st'\<lparr>log := log ?st' @ attemptsLog prompt rest\<rparr>)"
      by (rule Cons.IH [OF False b c])
    then show ?thesis
      using e0 by (simp add: Let_def shift) (simp add: record_event_def)
  qed
qed

lemma sendMessage_sweep:
  "truthy (apiKey w) \<Longrightarrow> getCandidateModels w st = (Fulfilled cs, st') \<Longrightarrow>
     sendMessage w prompt st = tryCandidates w prompt cs cs None st'"
  by (simp add: sendMessage_def)

text \<open>
  Claim C6. With a key and the candidate list \<open>cs\<close>, \<open>sendMessage\<close> sends one
  request per candidate in list order. When the candidates before position \<open>k\<close> are
  rejected and the one at \<open>k\<close> answers, that answer is returned and the log holds the
  requests for the first \<open>k + 1\<close> candidates and no later one. When every candidate is
  rejected, the call is rejected with an error whose message lists all candidates and
  ends with the message of the last rejection (\<open>Unknown error\<close> if what was thrown
  last is no \<open>Error\<close>), and the log holds one request per candidate.
\<close>

theorem sendMessage_first_success_or_aggregate:
  assumes "truthy (apiKey w)"
    and "getCandidateModels w st = (Fulfilled cs, st')"
  shows "(\<forall>k r. k < length cs \<and>
            (\<forall>i<k. \<exists>e. remote w (log st' @ attemptsLog prompt (take i cs))
                      (normalizeModelId (cs ! i)) prompt = Rejected e) \<and>
            remote w (log st' @ attemptsLog prompt (take k cs))
                      (normalizeModelId (cs ! k)) prompt = Fulfilled r
          \<longrightarrow> sendMessage w prompt st =
                (Fulfilled r, st'\<lparr>log := log st' @ attemptsLog prompt (take (Suc k) cs)\<rparr>))
       \<and> (\<forall>e. cs \<noteq> [] \<and>
            (\<forall>i<length cs. \<exists>e'. remote w (log st' @ attemptsLog prompt (take i cs))
                      (normalizeModelId (cs ! i)) prompt = Rejected e') \<and>
            remote w (log st' @ attemptsLog prompt (butlast cs))
                      (normalizeModelId (last cs)) prompt = Rejected e
          \<longrightarrow> sendMessage w prompt st =
                (Rejected (JsError (''Gemini failed for models: '' @ join '', '' cs @ ''. '' @
                                     messageOr ''Unknown error'' e)),
                 st'\<lparr>log := log st' @ attemptsLog prompt cs\<rparr>))"
  unfolding sendMessage_sweep [OF assms]
  by (auto simp: tryCandidates_first_success tryCandidates_all_rejected failedMessage_def)



theorem sendMessage_first_success_or_aggregate_witness:
  \<open>truthy (apiKey thirdAnswersWorld) \<and>
   getCandidateModels thirdAnswersWorld freshState =
     (Fulfilled curatedModels, \<lparr>cachedModelList = Some curatedModels, log = [FetchModels]\<rparr>) \<and>
   sendMessage thirdAnswersWorld ''p'' freshState =
     (Fulfilled (Inr ''[{"question":"Q1","answer":"A1"}]''),
      \<lparr>cachedModelList = Some curatedModels,
       log = [FetchModels, SendMessage ''gemini-1.5-flash-latest'' ''p'',
              SendMessage ''gemini-1.5-pro-latest'' ''p'', SendMessage ''gemini-2.5-pro'' ''p'']\<rparr>) \<and>
   sendMessage refusingWorld ''p'' freshState =
     (Rejected (JsError ''Gemini failed for models: gemini-1.5-flash-latest, gemini-1.5-pro-latest, gemini-2.5-pro, gemini-2.5-pro-latest, gemini-2.5-flash, gemini-2.0-flash, gemini-2.0-flash-exp, gemini-2.0-flash-lite, gemini-1.5-flash. no access to gemini-1.5-flash''),
      \<lparr>cachedModelList = Some curatedModels,
       log = FetchModels # attemptsLog ''p'' curatedModels\<rparr>)\<close>
proof -
  let ?S = "\<lparr>cachedModelList = Some curatedModels, log = [FetchModels]\<rparr>"
  let ?R = \<open>Inr ''[{"question":"Q1","answer":"A1"}]'' :: response\<close>
  have key: "truthy (apiKey thirdAnswersWorld)" by code_simp
  have cands: "getCandidateModels thirdAnswersWorld freshState = (Fulfilled curatedModels, ?S)"
    by code_simp
  have len: "2 < length curatedModels" by code_simp
  have r0: "remote thirdAnswersWorld (log ?S @ attemptsLog ''p'' (take 0 curatedModels))
      (normalizeModelId (curatedModels ! 0)) ''p''
      = Rejected (JsError ''no access to gemini-1.5-flash-latest'')"
    by code_simp
  have r1: "remote thirdAnswersWorld (log ?S @ attemptsLog ''p'' (take 1 curatedModels))
      (normalizeModelId (curatedModels ! 1)) ''p''
      = Rejected (JsError ''no access to gemini-1.5-pro-latest'')"
    by code_simp
  have before: "\<forall>i<2. \<exists>e. remote thirdAnswersWorld
      (log ?S @ attemptsLog ''p'' (take i curatedModels))
      (normalizeModelId (curatedModels ! i)) ''p'' = Rejected e"
  proof (intro allI impI)
    fix i :: nat
    assume "i < 2"
    then consider "i = 0" | "i = 1" by linarith
    then show "\<exists>e. remote thirdAnswersWorld
      (log ?S @ attemptsLog ''p'' (take i curatedModels))
      (normalizeModelId (curatedModels ! i)) ''p'' = Rejected e"
      using r0 r1 by cases blast+
  qed
  have r2: "remote thirdAnswersWorld (log ?S @ attemptsLog ''p'' (take 2 curatedModels))
      (normalizeModelId (curatedModels ! 2)) ''p'' = Fulfilled ?R"
    by code_simp
  have first: "sendMessage thirdAnswersWorld ''p'' freshState =
      (Fulfilled ?R, ?S\<lparr>log := log ?S @ attemptsLog ''p'' (take (Suc 2) curatedModels)\<rparr>)"
    using sendMessage_first_success_or_aggregate [OF key cands, of "''p''"] len before r2
    by blast
  have shape: "?S\<lparr>log := log ?S @ attemptsLog ''p'' (take (Suc 2) curatedModels)\<rparr> =
      \<lparr>cachedModelList = Some curatedModels,
       log = [FetchModels, SendMessage ''gemini-1.5-flash-latest'' ''p'',
              SendMessage ''gemini-1.5-pro-latest'' ''p'', SendMessage ''gemini-2.5-pro'' ''p'']\<rparr>"
    by code_simp
  have key': "truthy (apiKey refusingWorld)" by code_simp
  have cands': "getCandidateModels refusingWorld freshState = (Fulfilled curatedModels, ?S)"
    by code_simp
  have ne: "curatedModels \<noteq> []" by code_simp
  have each: "\<forall>i<length curatedModels. \<exists>e'. remote refusingWorld
      (log ?S @ attemptsLog ''p'' (take i curatedModels))
      (normalizeModelId (curatedModels ! i)) ''p'' = Rejected e'"
    by (simp add: refusingWorld_def)
  have lst: "remote refusingWorld (log ?S @ attemptsLog ''p'' (butlast curatedModels))
      (normalizeModelId (last curatedModels)) ''p''
      = Rejected (JsError ''no access to gemini-1.5-flash'')"
    by code_simp
  have all0: "sendMessage refusingWorld ''p'' freshState =
      (Rejected (JsError (''Gemini failed for models: '' @ join '', '' curatedModels @ ''. '' @
          messageOr ''Unknown error'' (JsError ''no access to gemini-1.5-flash''))),
       ?S\<lparr>log := log ?S @ attemptsLog ''p'' curatedModels\<rparr>)"
    using sendMessage_first_success_or_aggregate [OF key' cands', of "''p''"] ne each lst
    by blast
  have shape': "(Rejected (JsError (''Gemini failed for models: '' @ join '', '' curatedModels @ ''. '' @
          messageOr ''Unknown error'' (JsError ''no access to gemini-1.5-flash''))),
       ?S\<lparr>log := log ?S @ attemptsLog ''p'' curatedModels\<rparr>) =
     (Rejected (JsError ''Gemini failed for models: gemini-1.5-flash-latest, gemini-1.5-pro-latest, gemini-2.5-pro, gemini-2.5-pro-latest, gemini-2.5-flash, gemini-2.0-flash, gemini-2.0-flash-exp, gemini-2.0-flash-lite, gemini-1.5-flash. no access to gemini-1.5-flash'') :: response promise,
      \<lparr>cachedModelList = Some curatedModels,
       log = FetchModels # attemptsLog ''p'' curatedModels\<rparr>)"
    by code_simp
  have all: "sendMessage refusingWorld ''p'' freshState =
     (Rejected (JsError ''Gemini failed for models: gemini-1.5-flash-latest, gemini-1.5-pro-latest, gemini-2.5-pro, gemini-2.5-pro-latest, gemini-2.5-flash, gemini-2.0-flash, gemini-2.0-flash-exp, gemini-2.0-flash-lite, gemini-1.5-flash. no access to gemini-1.5-flash''),
      \<lparr>cachedModelList = Some curatedModels,
       log = FetchModels # attemptsLog ''p'' curatedModels\<rparr>)"
    using all0 unfolding shape' .
  show ?thesis
    using key cands first all unfolding shape by blast
qed
subsection \<open>The orchestrator never fails\<close>

text \<open>What an attempt writes to the log.\<close>

lemma warnings_append: "warnings (xs @ ys) = warnings xs @ warnings ys"
  by (induction xs rule: warnings.induct) auto

lemma timers_append: "timers (xs @ ys) = timers xs @ timers ys"
  by (induction xs rule: timers.induct) auto

lemma tryCandidates_quiet:
  "tryCandidates w prompt allc cs lastError st = (r, st') \<Longrightarrow>
     warnings (log st') = warnings (log st) \<and> timers (log st') = timers (log st)"
proof (induction cs arbitrary: lastError st)
  case Nil
  then show ?case by simp
next
  case (Cons c rest)
  show ?case
  proof (cases "remote w (log st) (normalizeModelId c) prompt")
    case (Fulfilled x)
    with Cons.prems show ?thesis
      by (auto simp: Let_def record_event_def warnings_append timers_append)
  next
    case (Rejected e)
    with Cons.prems have
      "tryCandidates w prompt allc rest (Some e)
         (record_event (SendMessage (normalizeModelId c) prompt) st) = (r, st')"
      by (simp add: Let_def)
    from Cons.IH [OF this] show ?thesis
      by (simp add: record_event_def warnings_append timers_append)
  next
    case Pending
    with Cons.prems show ?thesis
      by (auto simp: Let_def record_event_def warnings_append timers_append)
  qed
qed

lemma listAvailableModels_quiet:
  "listAvailableModels w st = (r, st') \<Longrightarrow>
     warnings (log st') = warnings (log st) \<and> timers (log st') = timers (log st)"
  by (auto simp: listAvailableModels_def Let_def record_event_def warnings_append
      timers_append split: if_splits promise.splits)

lemma getCandidateModels_quiet:
  "getCandidateModels w st = (r, st') \<Longrightarrow>
     warnings (log st') = warnings (log st) \<and> timers (log st') = timers (log st)"
  unfolding getCandidateModels_def
  by (auto simp: Let_def split: option.splits prod.splits promise.splits
      dest: listAvailableModels_quiet)

lemma sendMessage_quiet:
  "sendMessage w prompt st = (r, st') \<Longrightarrow>
     warnings (log st') = warnings (log st) \<and> timers (log st') = timers (log st)"
  unfolding sendMessage_def
  by (auto split: if_splits prod.splits promise.splits
      dest!: getCandidateModels_quiet tryCandidates_quiet)

lemma generateAiResponse_quiet:
  "generateAiResponse w data st = (r, st') \<Longrightarrow>
     warnings (log st') = warnings (log st) \<and> timers (log st') = timers (log st)"
  unfolding generateAiResponse_def
  by (auto split: prod.splits promise.splits sum.splits if_splits dest!: sendMessage_quiet)

lemma generateAiResponse_valid:
  "generateAiResponse w data st = (Fulfilled questions, st') \<Longrightarrow> isValidQuestions questions"
  unfolding generateAiResponse_def
  by (auto split: prod.splits promise.splits sum.splits if_splits)

lemma withTimeout_settles: "withTimeout p ms message st \<noteq> (Pending, st')"
  by (auto simp: withTimeout_def split: prod.splits promise.splits)

lemma timed_attempt_log:
  assumes "withTimeout (generateAiResponse w data) ms message st = (r, st')"
  shows "warnings (log st') = warnings (log st) \<and> timers (log st') = timers (log st) @ [ms]"
proof -
  obtain r0 where "generateAiResponse w data (record_event (TimerSet ms) st) = (r0, st')"
    using assms by (auto simp: withTimeout_def split: prod.splits promise.splits)
  from generateAiResponse_quiet [OF this] show ?thesis
    by (simp add: record_event_def warnings_append timers_append)
qed

lemma timed_attempt_valid:
  assumes "withTimeout (generateAiResponse w data) ms message st = (Fulfilled questions, st')"
  shows "isValidQuestions questions"
proof -
  have "generateAiResponse w data (record_event (TimerSet ms) st) = (Fulfilled questions, st')"
    using assms by (auto simp: withTimeout_def split: prod.splits promise.splits)
  then show ?thesis by (rule generateAiResponse_valid)
qed


lemma useFallback_eq:
  "useFallback data reason st =
     (Fulfilled (buildFallbackQuestions data),
      st\<lparr>log := log st @ [ToastWarning (fallbackWarning reason)]\<rparr>)"
  by (simp add: useFallback_def record_event_def)

lemma generateQuestions_outcomes:
  "(\<exists>questions st'. generateQuestions w data st = (Fulfilled questions, st') \<and>
        warnings (log st') = warnings (log st) \<and>
        (primaryAttempt w data st = (Fulfilled questions, st') \<or>
         (\<exists>st1. retryAttempt w data st1 = (Fulfilled questions, st'))))
   \<or> (\<exists>reason st'. generateQuestions w data st = (Fulfilled (buildFallbackQuestions data), st') \<and>
        warnings (log st') = warnings (log st) @ [fallbackWarning reason])"
  (is "?real \<or> ?fallback")
proof (cases "primaryAttempt w data st")
  case (Pair r st1)
  note p = Pair
  have log1: "warnings (log st1) = warnings (log st)"
    using p timed_attempt_log unfolding primaryAttempt_def by blast
  show ?thesis
  proof (cases r)
    case (Fulfilled questions)
    with p have "generateQuestions w data st = (Fulfilled questions, st1)"
      by (simp add: generateQuestions_def)
    with p Fulfilled log1 have ?real by blast
    then show ?thesis ..
  next
    case Pending
    with p have False by (simp add: primaryAttempt_def withTimeout_settles)
    then show ?thesis ..
  next
    case (Rejected error)
    note rej = Rejected
    show ?thesis
    proof (cases "isTimeoutReason (messageOr ''Unknown AI error'' error)")
      case False
      with p rej have "generateQuestions w data st =
          useFallback data (messageOr ''Unknown AI error'' error) st1"
        by (simp add: generateQuestions_def)
      then have "generateQuestions w data st =
          (Fulfilled (buildFallbackQuestions data),
           st1\<lparr>log := log st1 @
             [ToastWarning (fallbackWarning (messageOr ''Unknown AI error'' error))]\<rparr>)"
        by (simp only: useFallback_eq)
      moreover have "warnings (log (st1\<lparr>log := log st1 @
             [ToastWarning (fallbackWarning (messageOr ''Unknown AI error'' error))]\<rparr>)) =
          warnings (log st) @ [fallbackWarning (messageOr ''Unknown AI error'' error)]"
        by (simp add: warnings_append log1)
      ultimately have ?fallback by blast
      then show ?thesis ..
    next
      case True
      obtain r2 st2 where q: "retryAttempt w data st1 = (r2, st2)"
        by (cases "retryAttempt w data st1")
      have "warnings (log st2) = warnings (log st1)"
        using q timed_attempt_log unfolding retryAttempt_def by blast
      with log1 have log2: "warnings (log st2) = warnings (log st)" by simp
      show ?thesis
      proof (cases r2)
        case (Fulfilled questions)
        with p rej True q have "generateQuestions w data st = (Fulfilled questions, st2)"
          by (simp add: generateQuestions_def)
        with q Fulfilled log2 have ?real by blast
        then show ?thesis ..
      next
        case Pending
        with q have False by (simp add: retryAttempt_def withTimeout_settles)
        then show ?thesis ..
      next
        case (Rejected retryError)
        with p rej True q have "generateQuestions w data st =
            useFallback data (messageOr ''Unknown AI error'' retryError) st2"
          by (simp add: generateQuestions_def)
        then have "generateQuestions w data st =
          (Fulfilled (buildFallbackQuestions data),
           st2\<lparr>log := log st2 @
             [ToastWarning (fallbackWarning (messageOr ''Unknown AI error'' retryError))]\<rparr>)"
          by (simp only: useFallback_eq)
        moreover have "warnings (log (st2\<lparr>log := log st2 @
             [ToastWarning (fallbackWarning (messageOr ''Unknown AI error'' retryError))]\<rparr>)) =
          warnings (log st) @ [fallbackWarning (messageOr ''Unknown AI error'' retryError)]"
          by (simp add: warnings_append log2)
        ultimately have ?fallback by blast
        then show ?thesis ..
      qed
    qed
  qed
qed

text \<open>
  Claim C1. For every environment, form data and state, \<open>generateQuestions\<close> is
  fulfilled, never rejected and never left pending, with questions that pass the shape
  check. Either one of the two attempts produced them and no warning was shown, or they
  are the fallback questions and exactly one warning was shown.
\<close>

theorem generateQuestions_never_rejects:
  "\<exists>questions st'.
     generateQuestions w data st = (Fulfilled questions, st') \<and>
     isValidQuestions questions \<and>
     ((warnings (log st') = warnings (log st) \<and>
       (primaryAttempt w data st = (Fulfilled questions, st') \<or>
        (\<exists>st1. retryAttempt w data st1 = (Fulfilled questions, st'))))
      \<or> (\<exists>reason. questions = buildFallbackQuestions data \<and>
            warnings (log st') = warnings (log st) @ [fallbackWarning reason]))"
proof -
  consider
    (real) questions st' where
      "generateQuestions w data st = (Fulfilled questions, st')"
      "warnings (log st') = warnings (log st)"
      "primaryAttempt w data st = (Fulfilled questions, st') \<or>
         (\<exists>st1. retryAttempt w data st1 = (Fulfilled questions, st'))"
  | (fallback) reason st' where
      "generateQuestions w data st = (Fulfilled (buildFallbackQuestions data), st')"
      "warnings (log st') = warnings (log st) @ [fallbackWarning reason]"
    using generateQuestions_outcomes [of w data st] by blast
  then show ?thesis
  proof cases
    case real
    from real(3) have "isValidQuestions questions"
      unfolding primaryAttempt_def retryAttempt_def using timed_attempt_valid by blast
    with real show ?thesis by blast
  next
    case fallback
    then show ?thesis using fallback_valid [of data] by blast
  qed
qed

subsection \<open>The retry policy\<close>

lemma timed_out_is_timeout: "isTimeoutReason ''AI generation timed out''"
  by code_simp

lemma primary_pending:
  "generateAiResponse w data (record_event (TimerSet AI_TIMEOUT_MS) st) = (Pending, st1) \<Longrightarrow>
     primaryAttempt w data st = (Rejected (JsError ''AI generation timed out''), st1)"
  by (simp add: primaryAttempt_def withTimeout_def)

lemma retry_taken:
  assumes "primaryAttempt w data st = (Rejected e, st1)"
    and "isTimeoutReason (messageOr ''Unknown AI error'' e)"
  shows "generateQuestions w data st =
     (case retryAttempt w data st1 of
        (Fulfilled questions, st2) \<Rightarrow> (Fulfilled questions, st2)
      | (Pending, st2) \<Rightarrow> (Pending, st2)
      | (Rejected retryError, st2) \<Rightarrow>
          useFallback data (messageOr ''Unknown AI error'' retryError) st2)"
  using assms by (simp add: generateQuestions_def)

lemma retry_not_taken:
  assumes "primaryAttempt w data st = (Rejected e, st1)"
    and "\<not> isTimeoutReason (messageOr ''Unknown AI error'' e)"
  shows "generateQuestions w data st = useFallback data (messageOr ''Unknown AI error'' e) st1"
  using assms by (simp add: generateQuestions_def)





subsection \<open>The missing key\<close>

lemma missing_key_not_timeout: "\<not> isTimeoutReason ''Missing VITE_GEMINI_API_KEY''"
  by code_simp

lemma sendMessage_without_key:
  "\<not> truthy (apiKey w) \<Longrightarrow>
     sendMessage w prompt st = (Rejected (JsError ''Missing VITE_GEMINI_API_KEY''), st)"
  by (simp add: sendMessage_def)

lemma primaryAttempt_without_key:
  "\<not> truthy (apiKey w) \<Longrightarrow>
     primaryAttempt w data st =
       (Rejected (JsError ''Missing VITE_GEMINI_API_KEY''), record_event (TimerSet 60000) st)"
  by (simp add: primaryAttempt_def withTimeout_def generateAiResponse_def
      sendMessage_without_key AI_TIMEOUT_MS_def)

text \<open>
  Claim C2, as amended. Without a configured key \<open>sendMessage\<close> is rejected at once
  with the error \<open>Missing VITE_GEMINI_API_KEY\<close>, and nothing is sent (the state and the
  log are unchanged). Inside \<open>generateQuestions\<close> this error is caught like any other
  failure without the timeout marker: the result is the fallback questions, with one
  warning that carries the message, and no retry.
\<close>

theorem missing_key_ends_in_fallback:
  "\<not> truthy (apiKey w) \<Longrightarrow>
     sendMessage w prompt st = (Rejected (JsError ''Missing VITE_GEMINI_API_KEY''), st) \<and>
     generateQuestions w data st =
       (Fulfilled (buildFallbackQuestions data),
        st\<lparr>log := log st @
          [TimerSet 60000, ToastWarning (fallbackWarning ''Missing VITE_GEMINI_API_KEY'')]\<rparr>)"
proof
  assume k: "\<not> truthy (apiKey w)"
  show "sendMessage w prompt st = (Rejected (JsError ''Missing VITE_GEMINI_API_KEY''), st)"
    by (rule sendMessage_without_key [OF k])
  have "generateQuestions w data st =
      useFallback data ''Missing VITE_GEMINI_API_KEY'' (record_event (TimerSet 60000) st)"
    using retry_not_taken [OF primaryAttempt_without_key [OF k], of data st]
      missing_key_not_timeout
    by (simp add: messageOr_def)
  then show "generateQuestions w data st =
       (Fulfilled (buildFallbackQuestions data),
        st\<lparr>log := log st @
          [TimerSet 60000, ToastWarning (fallbackWarning ''Missing VITE_GEMINI_API_KEY'')]\<rparr>)"
    by (simp only: useFallback_eq) (simp add: record_event_def)
qed

subsection \<open>The resolved candidate list is not empty\<close>

lemma curated_normalized: "map normalizeModelId curatedModels = curatedModels"
  by code_simp

lemma curated_preferred: "set curatedModels \<subseteq> set (preferredModels cfg)"
  by (simp add: preferredModels_def curatedModels_def)

lemma curated_in_candidates:
  "set curatedModels \<subseteq> set (uniq (map normalizeModelId (preferredModels cfg @ available)))"
proof -
  have "set curatedModels = normalizeModelId ` set curatedModels"
    using curated_normalized by (metis set_map)
  also have "\<dots> \<subseteq> normalizeModelId ` set (preferredModels cfg @ available)"
    using curated_preferred [of cfg] by auto
  finally show ?thesis by (simp add: set_uniq image_Un)
qed

lemma fresh_candidates_hold_curated:
  assumes "cachedModelList st = None"
    and "getCandidateModels w st = (Fulfilled cs, st')"
  shows "set curatedModels \<subseteq> set cs"
proof -
  obtain available where
    "cs = uniq (map normalizeModelId (preferredModels (configuredModel w) @ available))"
    using assms
    by (auto simp: getCandidateModels_def Let_def
        split: prod.splits promise.splits if_splits intro: that [of "[]"])
  then show ?thesis using curated_in_candidates by simp
qed

lemma curated_not_empty: "curatedModels \<noteq> []"
  by (simp add: curatedModels_def)

text \<open>
  A list that \<open>getCandidateModels\<close> resolves from an empty cache is never empty: it
  holds the nine curated identifiers, whatever is configured and whatever discovery
  answers. The loop of \<open>sendMessage\<close> therefore never starts on an empty list.
\<close>

lemma fresh_candidates_not_empty:
  assumes "cachedModelList st = None"
    and "getCandidateModels w st = (Fulfilled cs, st')"
  shows "cs \<noteq> []"
  using fresh_candidates_hold_curated [OF assms] curated_not_empty by auto

subsection \<open>The shape check\<close>

lemma validItem_iff:
  "validItem item \<longleftrightarrow>
     (\<exists>ps q a. item = JObject ps \<and> map_of ps ''question'' = Some (JString q) \<and>
        map_of ps ''answer'' = Some (JString a) \<and> 0 < length (trim q) \<and> 0 < length (trim a))"
  by (cases item)
    (auto simp: validItem_def nonBlankString_def split: option.splits json.splits)

lemma isValidQuestions_iff:
  "isValidQuestions v \<longleftrightarrow>
     (\<exists>items. v = JArray items \<and>
        (\<forall>item \<in> set items. \<exists>ps q a. item = JObject ps \<and>
           map_of ps ''question'' = Some (JString q) \<and>
           map_of ps ''answer'' = Some (JString a) \<and>
           0 < length (trim q) \<and> 0 < length (trim a)))"
  by (cases v) (simp_all add: isValidQuestions_def list_all_iff validItem_iff)

lemma cleanAiResponse_error:
  "cleanAiResponse w text = Inl e \<Longrightarrow> \<exists>msg. e = JsError (''Invalid JSON format: '' @ msg)"
  by (auto simp: cleanAiResponse_def split: sum.splits)

lemma generateAiResponse_checked:
  assumes "sendMessage w (promptText w data) st = (Fulfilled (Inr text), st')"
    and "jsonParse w (normalizedText text) = Inr v"
  shows "generateAiResponse w data st =
     (if isValidQuestions v then Fulfilled v
      else Rejected (JsError ''AI returned unexpected question format''), st')"
  using assms by (simp add: generateAiResponse_def cleanAiResponse_def)

text \<open>
  Claim C8. The shape check holds exactly for an array whose every element is an object
  with string-valued \<open>question\<close> and \<open>answer\<close> of non-empty trimmed text. A parsed
  value that passes is returned as it is; any other is rejected with the error
  \<open>AI returned unexpected question format\<close>, which no failure of the parsing step
  produces. The array with the one pair of an empty question and the answer \<open>A1\<close>
  does not pass.
\<close>

theorem unexpected_shape_is_rejected:
  "(isValidQuestions v \<longleftrightarrow>
      (\<exists>items. v = JArray items \<and>
        (\<forall>item \<in> set items. \<exists>ps q a. item = JObject ps \<and>
           map_of ps ''question'' = Some (JString q) \<and>
           map_of ps ''answer'' = Some (JString a) \<and>
           0 < length (trim q) \<and> 0 < length (trim a))))
   \<and> (\<forall>text st'. sendMessage w (promptText w data) st = (Fulfilled (Inr text), st') \<and>
          jsonParse w (normalizedText text) = Inr v
        \<longrightarrow> generateAiResponse w data st =
             (if isValidQuestions v then Fulfilled v
              else Rejected (JsError ''AI returned unexpected question format''), st'))
   \<and> (\<forall>text e. cleanAiResponse w text = Inl e
        \<longrightarrow> e \<noteq> JsError ''AI returned unexpected question format'')
   \<and> \<not> isValidQuestions
          (JArray [JObject [(''question'', JString []), (''answer'', JString ''A1'')]]
            :: 'n json)"
proof (intro conjI allI impI)
  show "isValidQuestions v \<longleftrightarrow>
      (\<exists>items. v = JArray items \<and>
        (\<forall>item \<in> set items. \<exists>ps q a. item = JObject ps \<and>
           map_of ps ''question'' = Some (JString q) \<and>
           map_of ps ''answer'' = Some (JString a) \<and>
           0 < length (trim q) \<and> 0 < length (trim a)))"
    by (rule isValidQuestions_iff)
next
  fix response st'
  assume "sendMessage w (promptText w data) st = (Fulfilled (Inr response), st') \<and>
          jsonParse w (normalizedText response) = Inr v"
  then show "generateAiResponse w data st =
             (if isValidQuestions v then Fulfilled v
              else Rejected (JsError ''AI returned unexpected question format''), st')"
    using generateAiResponse_checked by blast
next
  fix response e
  assume "cleanAiResponse w response = Inl e"
  then obtain msg where "e = JsError (''Invalid JSON format: '' @ msg)"
    using cleanAiResponse_error by blast
  then show "e \<noteq> JsError ''AI returned unexpected question format''" by simp
next
  show "\<not> isValidQuestions
          (JArray [JObject [(''question'', JString []), (''answer'', JString ''A1'')]]
            :: 'n json)"
    by (simp add: isValidQuestions_def validItem_def nonBlankString_def trim_def)
qed

subsection \<open>Fences inside a string value\<close>

text \<open>
  Claim C5 at a valid JSON array whose question holds a code fence: the text parses to
  a well-shaped value, but \<open>cleanAiResponse\<close> removes the fence from inside the string
  before parsing and returns a different question.
\<close>

theorem fence_inside_string_is_removed:
  \<open>jsonParse refusingWorld ''[{"question":"What is ```json?","answer":"A fence"}]'' =
     Inr (JArray [JObject [(''question'', JString ''What is ```json?''),
                           (''answer'', JString ''A fence'')]]) \<and>
   isValidQuestions (JArray [JObject [(''question'', JString ''What is ```json?''),
                                      (''answer'', JString ''A fence'')]] :: int json) \<and>
   normalizedText ''[{"question":"What is ```json?","answer":"A fence"}]'' =
     ''[{"question":"What is ?","answer":"A fence"}]'' \<and>
   cleanAiResponse refusingWorld ''[{"question":"What is ```json?","answer":"A fence"}]'' =
     Inr (JArray [JObject [(''question'', JString ''What is ?''),
                           (''answer'', JString ''A fence'')]])\<close>
  by code_simp


section \<open>The theorems at the example environments\<close>

lemma generateAiResponse_pending:
  "sendMessage w (promptText w data) st = (Pending, st') \<Longrightarrow>
     generateAiResponse w data st = (Pending, st')"
  by (simp add: generateAiResponse_def)


text \<open>
  Claim C1 where no request is answered in time: both attempts time out, and the
  result is the fallback with one warning; and where a key is configured and the cached
  candidate list is empty: the fallback with one warning again.
\<close>

theorem generateQuestions_never_rejects_witness:
  "generateQuestions silentWorld exampleData freshState =
     (Fulfilled (buildFallbackQuestions exampleData),
      \<lparr>cachedModelList = Some curatedModels,
       log = [TimerSet 60000, FetchModels,
              SendMessage ''gemini-1.5-flash-latest'' ''Questions for Full Stack Developer'',
              TimerSet 90000,
              SendMessage ''gemini-1.5-flash-latest'' ''Questions for Full Stack Developer'',
              ToastWarning (fallbackWarning ''AI generation timed out after retry'')]\<rparr>) \<and>
   isValidQuestions (buildFallbackQuestions exampleData) \<and>
   generateQuestions refusingWorld exampleData emptyCacheState =
     (Fulfilled (buildFallbackQuestions exampleData),
      \<lparr>cachedModelList = Some [],
       log = [TimerSet 60000,
              ToastWarning (fallbackWarning ''Gemini failed for models: . Unknown error'')]\<rparr>)"
  (is "?run \<and> ?valid \<and> ?empty")
proof -
  let ?P = "''Questions for Full Stack Developer''"
  let ?S1 = "\<lparr>cachedModelList = Some curatedModels,
       log = [TimerSet 60000, FetchModels, SendMessage ''gemini-1.5-flash-latest'' ?P]\<rparr>"
  let ?S2 = "\<lparr>cachedModelList = Some curatedModels,
       log = [TimerSet 60000, FetchModels, SendMessage ''gemini-1.5-flash-latest'' ?P,
              TimerSet 90000, SendMessage ''gemini-1.5-flash-latest'' ?P]\<rparr>"
  have s1: "sendMessage silentWorld (promptText silentWorld exampleData)
      (record_event (TimerSet AI_TIMEOUT_MS) freshState) = (Pending, ?S1)"
    by code_simp
  have p: "primaryAttempt silentWorld exampleData freshState =
      (Rejected (JsError ''AI generation timed out''), ?S1)"
    by (rule primary_pending [OF generateAiResponse_pending [OF s1]])
  have s2: "sendMessage silentWorld (promptText silentWorld exampleData)
      (record_event (TimerSet AI_RETRY_TIMEOUT_MS) ?S1) = (Pending, ?S2)"
    by code_simp
  have r: "retryAttempt silentWorld exampleData ?S1 =
      (Rejected (JsError ''AI generation timed out after retry''), ?S2)"
    using generateAiResponse_pending [OF s2] by (simp add: retryAttempt_def withTimeout_def)
  have "generateQuestions silentWorld exampleData freshState =
      useFallback exampleData ''AI generation timed out after retry'' ?S2"
    using retry_taken [OF p] r timed_out_is_timeout by (simp add: messageOr_def)
  then have run: ?run
    by (simp only: useFallback_eq) simp
  obtain questions st' where
    "generateQuestions silentWorld exampleData freshState = (Fulfilled questions, st')"
    "isValidQuestions questions"
    using generateQuestions_never_rejects [of silentWorld exampleData freshState] by blast
  with run have valid: ?valid by simp
  have s3: "sendMessage refusingWorld (promptText refusingWorld exampleData)
      (record_event (TimerSet AI_TIMEOUT_MS) emptyCacheState) =
      (Rejected (JsError ''Gemini failed for models: . Unknown error''),
       \<lparr>cachedModelList = Some [], log = [TimerSet 60000]\<rparr>)"
    by code_simp
  have p3: "primaryAttempt refusingWorld exampleData emptyCacheState =
      (Rejected (JsError ''Gemini failed for models: . Unknown error''),
       \<lparr>cachedModelList = Some [], log = [TimerSet 60000]\<rparr>)"
    by (simp add: primaryAttempt_def withTimeout_def generateAiResponse_def s3)
  have nt: "\<not> isTimeoutReason ''Gemini failed for models: . Unknown error''"
    by code_simp
  have "generateQuestions refusingWorld exampleData emptyCacheState =
      useFallback exampleData ''Gemini failed for models: . Unknown error''
        \<lparr>cachedModelList = Some [], log = [TimerSet 60000]\<rparr>"
    using retry_not_taken [OF p3] nt by (simp add: messageOr_def)
  then have empty: ?empty
    by (simp only: useFallback_eq) simp
  from run valid empty show ?thesis by blast
qed

text \<open>
  Claim C9 where discovery lists a curated model and a new one, and the configured model
  carries the prefix: ten distinct candidates, and the second call reads the cache.
\<close>

theorem getCandidateModels_cached_and_unique_witness:
  "cachedModelList freshState = None \<and>
   listAvailableModels overlapWorld freshState =
     (Fulfilled [''gemini-2.0-flash'', ''gemini-3-new''],
      \<lparr>cachedModelList = None, log = [FetchModels]\<rparr>) \<and>
   getCandidateModels overlapWorld freshState =
     (Fulfilled
        [''gemini-2.5-flash'', ''gemini-1.5-flash-latest'', ''gemini-1.5-pro-latest'',
         ''gemini-2.5-pro'', ''gemini-2.5-pro-latest'', ''gemini-2.0-flash'',
         ''gemini-2.0-flash-exp'', ''gemini-2.0-flash-lite'', ''gemini-1.5-flash'',
         ''gemini-3-new''],
      \<lparr>cachedModelList = Some
         [''gemini-2.5-flash'', ''gemini-1.5-flash-latest'', ''gemini-1.5-pro-latest'',
          ''gemini-2.5-pro'', ''gemini-2.5-pro-latest'', ''gemini-2.0-flash'',
          ''gemini-2.0-flash-exp'', ''gemini-2.0-flash-lite'', ''gemini-1.5-flash'',
          ''gemini-3-new''],
       log = [FetchModels]\<rparr>) \<and>
   getCandidateModels silentWorld
      \<lparr>cachedModelList = Some
         [''gemini-2.5-flash'', ''gemini-1.5-flash-latest'', ''gemini-1.5-pro-latest'',
          ''gemini-2.5-pro'', ''gemini-2.5-pro-latest'', ''gemini-2.0-flash'',
          ''gemini-2.0-flash-exp'', ''gemini-2.0-flash-lite'', ''gemini-1.5-flash'',
          ''gemini-3-new''],
       log = [FetchModels]\<rparr> =
     (Fulfilled
        [''gemini-2.5-flash'', ''gemini-1.5-flash-latest'', ''gemini-1.5-pro-latest'',
         ''gemini-2.5-pro'', ''gemini-2.5-pro-latest'', ''gemini-2.0-flash'',
         ''gemini-2.0-flash-exp'', ''gemini-2.0-flash-lite'', ''gemini-1.5-flash'',
         ''gemini-3-new''],
      \<lparr>cachedModelList = Some
         [''gemini-2.5-flash'', ''gemini-1.5-flash-latest'', ''gemini-1.5-pro-latest'',
          ''gemini-2.5-pro'', ''gemini-2.5-pro-latest'', ''gemini-2.0-flash'',
          ''gemini-2.0-flash-exp'', ''gemini-2.0-flash-lite'', ''gemini-1.5-flash'',
          ''gemini-3-new''],
       log = [FetchModels]\<rparr>) \<and>
   distinct
        [''gemini-2.5-flash'', ''gemini-1.5-flash-latest'', ''gemini-1.5-pro-latest'',
         ''gemini-2.5-pro'', ''gemini-2.5-pro-latest'', ''gemini-2.0-flash'',
         ''gemini-2.0-flash-exp'', ''gemini-2.0-flash-lite'', ''gemini-1.5-flash'',
         ''gemini-3-new'']"
  (is "?fresh \<and> ?listing \<and> ?first \<and> ?again \<and> ?dist")
proof -
  have fresh: ?fresh by code_simp
  have listing: ?listing by code_simp
  have first: ?first by code_simp
  obtain cs st1 where
    a: "getCandidateModels overlapWorld freshState = (Fulfilled cs, st1)" and
    b: "getCandidateModels silentWorld st1 = (Fulfilled cs, st1)" and
    d: "distinct cs"
    using getCandidateModels_cached_and_unique [OF fresh listing, where w' = silentWorld]
    by blast
  have "(Fulfilled cs, st1) =
     (Fulfilled
        [''gemini-2.5-flash'', ''gemini-1.5-flash-latest'', ''gemini-1.5-pro-latest'',
         ''gemini-2.5-pro'', ''gemini-2.5-pro-latest'', ''gemini-2.0-flash'',
         ''gemini-2.0-flash-exp'', ''gemini-2.0-flash-lite'', ''gemini-1.5-flash'',
         ''gemini-3-new''],
      \<lparr>cachedModelList = Some
         [''gemini-2.5-flash'', ''gemini-1.5-flash-latest'', ''gemini-1.5-pro-latest'',
          ''gemini-2.5-pro'', ''gemini-2.5-pro-latest'', ''gemini-2.0-flash'',
          ''gemini-2.0-flash-exp'', ''gemini-2.0-flash-lite'', ''gemini-1.5-flash'',
          ''gemini-3-new''],
       log = [FetchModels]\<rparr>)"
    by (rule trans [OF a [symmetric] first])
  then have cs: "cs =
        [''gemini-2.5-flash'', ''gemini-1.5-flash-latest'', ''gemini-1.5-pro-latest'',
         ''gemini-2.5-pro'', ''gemini-2.5-pro-latest'', ''gemini-2.0-flash'',
         ''gemini-2.0-flash-exp'', ''gemini-2.0-flash-lite'', ''gemini-1.5-flash'',
         ''gemini-3-new'']"
    and st1: "st1 = \<lparr>cachedModelList = Some
         [''gemini-2.5-flash'', ''gemini-1.5-flash-latest'', ''gemini-1.5-pro-latest'',
          ''gemini-2.5-pro'', ''gemini-2.5-pro-latest'', ''gemini-2.0-flash'',
          ''gemini-2.0-flash-exp'', ''gemini-2.0-flash-lite'', ''gemini-1.5-flash'',
          ''gemini-3-new''],
       log = [FetchModels]\<rparr>"
    by blast+
  have again: ?again using b unfolding cs st1 .
  have dist: ?dist using d unfolding cs .
  from fresh listing first again dist show ?thesis by blast
qed




text \<open>Claim C2, as amended, where no key is configured.\<close>

theorem missing_key_ends_in_fallback_witness:
  "\<not> truthy (apiKey noKeyWorld) \<and>
   sendMessage noKeyWorld ''p'' freshState =
     (Rejected (JsError ''Missing VITE_GEMINI_API_KEY''), freshState) \<and>
   generateQuestions noKeyWorld exampleData freshState =
     (Fulfilled (buildFallbackQuestions exampleData),
      \<lparr>cachedModelList = None,
       log = [TimerSet 60000, ToastWarning (fallbackWarning ''Missing VITE_GEMINI_API_KEY'')]\<rparr>)"
proof -
  have k: "\<not> truthy (apiKey noKeyWorld)" by code_simp
  have st: "freshState\<lparr>log := log freshState @
          [TimerSet 60000, ToastWarning (fallbackWarning ''Missing VITE_GEMINI_API_KEY'')]\<rparr> =
      \<lparr>cachedModelList = None,
       log = [TimerSet 60000, ToastWarning (fallbackWarning ''Missing VITE_GEMINI_API_KEY'')]\<rparr>"
    by (simp add: freshState_def)
  show ?thesis
    using k missing_key_ends_in_fallback [OF k, of "''p''" freshState exampleData]
    unfolding st by blast
qed

text \<open>
  Claim C2 as stated fails: without a key the first attempt is rejected with the error of
  the missing key, and \<open>generateQuestions\<close> is nevertheless fulfilled, with the fallback
  questions and a warning.
\<close>

theorem missing_key_does_not_propagate:
  "\<not> truthy (apiKey noKeyWorld) \<and>
   primaryAttempt noKeyWorld exampleData freshState =
     (Rejected (JsError ''Missing VITE_GEMINI_API_KEY''),
      \<lparr>cachedModelList = None, log = [TimerSet 60000]\<rparr>) \<and>
   generateQuestions noKeyWorld exampleData freshState =
     (Fulfilled (buildFallbackQuestions exampleData),
      \<lparr>cachedModelList = None,
       log = [TimerSet 60000,
              ToastWarning ''Using fallback interview questions for now. (Missing VITE_GEMINI_API_KEY)'']\<rparr>)"
proof -
  have k: "\<not> truthy (apiKey noKeyWorld)" by code_simp
  have p: "primaryAttempt noKeyWorld exampleData freshState =
     (Rejected (JsError ''Missing VITE_GEMINI_API_KEY''),
      \<lparr>cachedModelList = None, log = [TimerSet 60000]\<rparr>)"
    using primaryAttempt_without_key [OF k, of exampleData freshState]
    by (simp add: record_event_def freshState_def)
  have "generateQuestions noKeyWorld exampleData freshState =
      useFallback exampleData ''Missing VITE_GEMINI_API_KEY''
        \<lparr>cachedModelList = None, log = [TimerSet 60000]\<rparr>"
    using retry_not_taken [OF p] missing_key_not_timeout by (simp add: messageOr_def)
  then have "generateQuestions noKeyWorld exampleData freshState =
     (Fulfilled (buildFallbackQuestions exampleData),
      \<lparr>cachedModelList = None,
       log = [TimerSet 60000,
              ToastWarning ''Using fallback interview questions for now. (Missing VITE_GEMINI_API_KEY)'']\<rparr>)"
    by (simp only: useFallback_eq) (simp add: fallbackWarning_def)
  with k p show ?thesis by blast
qed

text \<open>
  Claim C8 where the model answers with an empty question, and where it answers with a
  well-shaped pair.
\<close>

theorem unexpected_shape_is_rejected_witness:
  \<open>sendMessage emptyQuestionWorld (promptText emptyQuestionWorld exampleData) freshState =
     (Fulfilled (Inr ''[{"question":"","answer":"A1"}]''),
      \<lparr>cachedModelList = Some curatedModels,
       log = [FetchModels,
              SendMessage ''gemini-1.5-flash-latest'' ''Questions for Full Stack Developer'']\<rparr>) \<and>
   jsonParse emptyQuestionWorld (normalizedText ''[{"question":"","answer":"A1"}]'') =
     Inr (JArray [JObject [(''question'', JString []), (''answer'', JString ''A1'')]]) \<and>
   generateAiResponse emptyQuestionWorld exampleData freshState =
     (Rejected (JsError ''AI returned unexpected question format''),
      \<lparr>cachedModelList = Some curatedModels,
       log = [FetchModels,
              SendMessage ''gemini-1.5-flash-latest'' ''Questions for Full Stack Developer'']\<rparr>) \<and>
   sendMessage thirdAnswersWorld (promptText thirdAnswersWorld exampleData) freshState =
     (Fulfilled (Inr ''[{"question":"Q1","answer":"A1"}]''),
      \<lparr>cachedModelList = Some curatedModels,
       log = [FetchModels,
              SendMessage ''gemini-1.5-flash-latest'' ''Questions for Full Stack Developer'',
              SendMessage ''gemini-1.5-pro-latest'' ''Questions for Full Stack Developer'',
              SendMessage ''gemini-2.5-pro'' ''Questions for Full Stack Developer'']\<rparr>) \<and>
   generateAiResponse thirdAnswersWorld exampleData freshState =
     (Fulfilled (JArray [JObject [(''question'', JString ''Q1''), (''answer'', JString ''A1'')]]),
      \<lparr>cachedModelList = Some curatedModels,
       log = [FetchModels,
              SendMessage ''gemini-1.5-flash-latest'' ''Questions for Full Stack Developer'',
              SendMessage ''gemini-1.5-pro-latest'' ''Questions for Full Stack Developer'',
              SendMessage ''gemini-2.5-pro'' ''Questions for Full Stack Developer'']\<rparr>)\<close>
  (is "?sent \<and> ?parsed \<and> ?rejected \<and> ?sent' \<and> ?accepted")
proof -
  let ?bad = "JArray [JObject [(''question'', JString []), (''answer'', JString ''A1'')]]
     :: int json"
  let ?good = "JArray [JObject [(''question'', JString ''Q1''), (''answer'', JString ''A1'')]]
     :: int json"
  have sent: ?sent by code_simp
  have parsed: ?parsed by code_simp
  have bad: "\<not> isValidQuestions ?bad"
    using unexpected_shape_is_rejected [where 'n = int] by blast
  have "generateAiResponse emptyQuestionWorld exampleData freshState =
      (if isValidQuestions ?bad then Fulfilled ?bad
       else Rejected (JsError ''AI returned unexpected question format''),
       \<lparr>cachedModelList = Some curatedModels,
        log = [FetchModels,
               SendMessage ''gemini-1.5-flash-latest'' ''Questions for Full Stack Developer'']\<rparr>)"
    using unexpected_shape_is_rejected
      [of ?bad emptyQuestionWorld exampleData freshState] sent parsed
    by blast
  then have rejected: ?rejected using bad by simp
  have sent': ?sent' by code_simp
  have parsed': \<open>jsonParse thirdAnswersWorld (normalizedText ''[{"question":"Q1","answer":"A1"}]'')
      = Inr ?good\<close>
    by code_simp
  have good: "isValidQuestions ?good" by code_simp
  have "generateAiResponse thirdAnswersWorld exampleData freshState =
      (if isValidQuestions ?good then Fulfilled ?good
       else Rejected (JsError ''AI returned unexpected question format''),
       \<lparr>cachedModelList = Some curatedModels,
        log = [FetchModels,
               SendMessage ''gemini-1.5-flash-latest'' ''Questions for Full Stack Developer'',
               SendMessage ''gemini-1.5-pro-latest'' ''Questions for Full Stack Developer'',
               SendMessage ''gemini-2.5-pro'' ''Questions for Full Stack Developer'']\<rparr>)"
    using unexpected_shape_is_rejected
      [of ?good thirdAnswersWorld exampleData freshState] sent' parsed'
    by blast
  then have accepted: ?accepted using good by simp
  from sent parsed rejected sent' accepted show ?thesis by blast
qed

end
